theory Spec2Isabelle
  imports Main "HOL-Library.Extended_Nat"
begin

section \<open>JavaScript strings and arrays\<close>

text \<open>
  Strings are lists of characters. The library functions of the JavaScript runtime that
  \<^verbatim>\<open>src/main.js\<close> calls on strings and arrays are written out here, each with the
  behaviour ECMAScript gives it on the arguments the program can pass.
\<close>

text \<open>
  \<^verbatim>\<open>String.prototype.substr(start, length)\<close>: a negative \<open>start\<close> counts from the end
  of the string, \<open>length\<close> is clamped to \<open>[0, size]\<close>, and an absent \<open>length\<close>
  (\<open>None\<close>) reaches to the end of the string.
\<close>

definition substr :: "string \<Rightarrow> int \<Rightarrow> int option \<Rightarrow> string" where
  "substr s start len =
     (let size_s = int (length s);
          intStart = (if start < 0 then max (size_s + start) 0 else min start size_s);
          intLength = (case len of None \<Rightarrow> size_s | Some l \<Rightarrow> min (max l 0) size_s);
          intEnd = min (intStart + intLength) size_s
      in take (nat (intEnd - intStart)) (drop (nat intStart) s))"

text \<open>\<^verbatim>\<open>String.prototype.startsWith\<close>.\<close>

fun startsWith :: "string \<Rightarrow> string \<Rightarrow> bool" where
  "startsWith s [] = True"
| "startsWith [] (p # ps) = False"
| "startsWith (c # cs) (p # ps) = (c = p \<and> startsWith cs ps)"

text \<open>\<^verbatim>\<open>String.prototype.includes\<close>: some suffix of the string starts with the pattern.\<close>

fun includes_str :: "string \<Rightarrow> string \<Rightarrow> bool" where
  "includes_str [] p = (p = [])"
| "includes_str (c # cs) p = (startsWith (c # cs) p \<or> includes_str cs p)"

text \<open>
  \<^verbatim>\<open>String.prototype.replace(pattern, replacement)\<close> with a string pattern: only the
  first occurrence of the pattern is replaced. (The replacements the program passes hold
  no \<^verbatim>\<open>$\<close>, so they are inserted literally.)
\<close>

fun replace_first :: "string \<Rightarrow> string \<Rightarrow> string \<Rightarrow> string" where
  "replace_first [] pat rep = (if pat = [] then rep else [])"
| "replace_first (c # cs) pat rep =
     (if startsWith (c # cs) pat then rep @ drop (length pat) (c # cs)
      else c # replace_first cs pat rep)"

text \<open>
  \<^verbatim>\<open>String.prototype.split(sep)\<close> with a one-character separator: the result is never
  empty, and the text after the last separator is its last element.
\<close>

fun split_on :: "char \<Rightarrow> string \<Rightarrow> string list" where
  "split_on sep [] = [[]]"
| "split_on sep (c # cs) =
     (if c = sep then [] # split_on sep cs
      else (case split_on sep cs of
              [] \<Rightarrow> [[c]]
            | x # xs \<Rightarrow> (c # x) # xs))"

text \<open>\<^verbatim>\<open>Array.prototype.join(sep)\<close> on an array of strings.\<close>

fun join :: "string \<Rightarrow> string list \<Rightarrow> string" where
  "join sep [] = []"
| "join sep [x] = x"
| "join sep (x # y # ys) = x @ sep @ join sep (y # ys)"

text \<open>\<^verbatim>\<open>Array.prototype.map\<close> with a callback that also takes the index.\<close>

fun map_index :: "('a \<Rightarrow> nat \<Rightarrow> 'b) \<Rightarrow> nat \<Rightarrow> 'a list \<Rightarrow> 'b list" where
  "map_index f i [] = []"
| "map_index f i (x # xs) = f x i # map_index f (Suc i) xs"

text \<open>
  Lower-casing of the letters \<open>A\<close> to \<open>Z\<close>, every other character kept. This is
  what the flag \<^verbatim>\<open>i\<close> of a regular expression without the flag \<^verbatim>\<open>u\<close> amounts to on
  a pattern of ASCII characters (a character outside ASCII is never folded onto one
  inside). It is not \<^verbatim>\<open>String.prototype.toLowerCase\<close>, which lower-cases every cased
  character and is a parameter of the model (\<open>string_toLowerCase\<close> below).
\<close>

definition lower_char :: "char \<Rightarrow> char" where
  "lower_char c =
     (case map_of (zip ''ABCDEFGHIJKLMNOPQRSTUVWXYZ'' ''abcdefghijklmnopqrstuvwxyz'') c of
        None \<Rightarrow> c
      | Some l \<Rightarrow> l)"

definition ascii_lower :: "string \<Rightarrow> string" where
  "ascii_lower s = map lower_char s"

text \<open>A non-negative integer as the decimal text a template literal puts for it.\<close>

definition digit_char :: "nat \<Rightarrow> char" where
  "digit_char d =
     (if d = 0 then CHR ''0'' else if d = 1 then CHR ''1'' else if d = 2 then CHR ''2''
      else if d = 3 then CHR ''3'' else if d = 4 then CHR ''4'' else if d = 5 then CHR ''5''
      else if d = 6 then CHR ''6'' else if d = 7 then CHR ''7'' else if d = 8 then CHR ''8''
      else CHR ''9'')"

fun number_text :: "nat \<Rightarrow> string" where
  "number_text n =
     (if n < 10 then [digit_char n]
      else number_text (n div 10) @ [digit_char (n mod 10)])"

text \<open>
  \<^verbatim>\<open>Math.min(...xs)\<close>: the least element, and \<open>Infinity\<close> for no argument at all.
\<close>

fun Math_min :: "nat list \<Rightarrow> enat" where
  "Math_min [] = \<infinity>"
| "Math_min (x # xs) = min (enat x) (Math_min xs)"

section \<open>The text patcher\<close>

text \<open>
  \<^verbatim>\<open>insert(content, value, start, end, offset)\<close> returns the object
  \<^verbatim>\<open>{content, offset}\<close>.
\<close>

record edited =
  content :: string
  offset :: int

definition insert_edit :: "string \<Rightarrow> string \<Rightarrow> int \<Rightarrow> int \<Rightarrow> int \<Rightarrow> edited" where
  "insert_edit c v start end_pos off =
     \<lparr> content = substr c 0 (Some (start + off)) @ v @ substr c (end_pos + off) None,
       offset = off + int (length v) - (end_pos - start) \<rparr>"

text \<open>
  An edit is \<open>(start, end, replacement)\<close> in the coordinates of the original text. The
  rewrite threads one \<^verbatim>\<open>{content, offset}\<close> pair through its edits, starting from
  \<^verbatim>\<open>{content, offset: 0}\<close> (\<^verbatim>\<open>beforeProcessed\<close> in \<^verbatim>\<open>replaceImages\<close>)
  and calling \<^verbatim>\<open>insert\<close> with the pair the previous edit returned.
\<close>

type_synonym edit = "int \<times> int \<times> string"

definition apply_edit :: "edited \<Rightarrow> edit \<Rightarrow> edited" where
  "apply_edit ed e =
     (case e of (start, end_pos, v) \<Rightarrow> insert_edit (content ed) v start end_pos (offset ed))"

definition applyEdits :: "string \<Rightarrow> edit list \<Rightarrow> edited" where
  "applyEdits original es = foldl apply_edit \<lparr> content = original, offset = 0 \<rparr> es"

text \<open>
  Edits sorted ascending by start, none overlapping another, all within a text of
  length \<open>n\<close>; \<open>pos\<close> is where the previous edit ended.
\<close>

fun edits_ok :: "int \<Rightarrow> int \<Rightarrow> edit list \<Rightarrow> bool" where
  "edits_ok pos n [] = True"
| "edits_ok pos n ((start, end_pos, v) # es) =
     (pos \<le> start \<and> start \<le> end_pos \<and> end_pos \<le> n \<and> edits_ok end_pos n es)"

text \<open>The change of length one edit makes: \<open>len(replacement) - (end - start)\<close>.\<close>

definition edit_delta :: "edit \<Rightarrow> int" where
  "edit_delta e = (case e of (start, end_pos, v) \<Rightarrow> int (length v) - (end_pos - start))"

section \<open>Configuration, errors and the outside world\<close>

text \<open>
  The module-level \<^verbatim>\<open>options\<close> object. The encoder parameters
  (\<^verbatim>\<open>compressionLevel\<close>, \<^verbatim>\<open>quality\<close>, \<^verbatim>\<open>webpOptions\<close>, the potrace colours)
  are only handed on to the image libraries and are part of those below.
\<close>

record options =
  optimizeAll :: bool
  imgTagExtensions :: "string list"
  componentExtensions :: "string list"
  inlineBelow :: nat
  tagName :: string
  sizes :: "nat list"
  breakpoints :: "nat list"
  outputDir :: string
  publicDir :: string
  sourceDir :: string
  placeholder :: string
  trace_size :: "nat option"
  webp :: bool
  optimizeRemote :: bool

text \<open>
  A thrown exception or a rejected promise: a \<open>TypeError\<close> of the runtime, or the
  failure of a call into the file system, the network or an image library.
\<close>

datatype error = TypeError string | Failure string

definition bind_res :: "error + 'a \<Rightarrow> ('a \<Rightarrow> error + 'b) \<Rightarrow> error + 'b" where
  "bind_res r f = (case r of Inl e \<Rightarrow> Inl e | Inr x \<Rightarrow> f x)"

text \<open>What \<^verbatim>\<open>sharp(..).metadata()\<close> and \<^verbatim>\<open>sharp(..).toFile(..)\<close> resolve to.\<close>

record metadata =
  width :: nat
  height :: nat
  byte_size :: "nat option"

record output_info =
  info_width :: nat
  info_height :: nat

text \<open>
  The markup tree of \<^verbatim>\<open>svelte.parse\<close>. A value descriptor of an attribute is a
  \<open>Text\<close> with its data and its \<open>[start, end)\<close> in the source, or a dynamic
  \<open>MustacheTag\<close> or \<open>AttributeShorthand\<close> with its position; \<open>Blank\<close> is the
  object \<^verbatim>\<open>{}\<close> that \<^verbatim>\<open>getSrc\<close> makes up. An attribute without a value
  (\<^verbatim>\<open><img src>\<close>) has the value \<^verbatim>\<open>true\<close>.
\<close>

datatype value_desc =
  Blank
| Text string int int
| MustacheTag int int
| AttributeShorthand int int

fun vtype :: "value_desc \<Rightarrow> string option" where
  "vtype Blank = None"
| "vtype (Text d s e) = Some ''Text''"
| "vtype (MustacheTag s e) = Some ''MustacheTag''"
| "vtype (AttributeShorthand s e) = Some ''AttributeShorthand''"

fun data :: "value_desc \<Rightarrow> string option" where
  "data (Text d s e) = Some d"
| "data v = None"

fun span :: "value_desc \<Rightarrow> (int \<times> int) option" where
  "span Blank = None"
| "span (Text d s e) = Some (s, e)"
| "span (MustacheTag s e) = Some (s, e)"
| "span (AttributeShorthand s e) = Some (s, e)"

datatype attr_value = AttrTrue | AttrValues "value_desc list"

datatype attribute = Attribute (aname: string) (avalue: attr_value)

datatype node =
  Node (ntype: string) (nname: "string option") (attributes: "attribute list option")
    (children: "node list")

text \<open>
  Everything the program calls but does not define: Node's \<^verbatim>\<open>path\<close>, \<^verbatim>\<open>fs\<close> and
  \<^verbatim>\<open>crypto\<close>, \<^verbatim>\<open>sharp\<close>, \<^verbatim>\<open>potrace\<close>, \<^verbatim>\<open>svgo\<close>, \<^verbatim>\<open>axios\<close> and the
  Svelte parser. \<open>'w\<close> is the state of the world (the file system); a call that changes
  it returns the new one, a call that throws or rejects returns \<open>Inl\<close>. A variadic
  \<^verbatim>\<open>path\<close> function takes the list of its arguments.

  \<^item> \<open>fs_copy w dst src\<close> is \<^verbatim>\<open>fs.writeFileSync(dst, fs.readFileSync(src))\<close>;
  \<^item> \<open>sharp_webp_toFile w src size dst\<close> is
    \<^verbatim>\<open>sharp(src).resize({width: size, ..}).webp(..).toFile(dst)\<close>;
  \<^item> \<open>sharp_resize_toFile w src size dst\<close> is
    \<^verbatim>\<open>sharp(src).resize({width: size, ..}).jpeg(..).png(..).toFile(dst)\<close>;
  \<^item> \<open>sharp_toFile w src dst\<close> is \<^verbatim>\<open>sharp(src).jpeg(..).webp(..).png(..).toFile(dst)\<close>;
  \<^item> \<open>sharp_resize_toBuffer w src size\<close> is \<^verbatim>\<open>sharp(src).resize(size).toBuffer()\<close>;
  \<^item> \<open>axios_head_content_type w url\<close> is the \<^verbatim>\<open>content-type\<close> header of
    \<^verbatim>\<open>axios.head(url)\<close>, \<open>None\<close> when the response has none;
  \<^item> \<open>axios_download w url dst\<close> opens the write stream on \<open>dst\<close> and pipes the
    response of the GET request into it;
  \<^item> \<open>source_regex_test dir\<close> is
    \<^verbatim>\<open>new RegExp(`${sourceDir}[^node_modules]*`).test(dir)\<close>;
  \<^item> \<open>ratio_text w h\<close> is the text of the number \<^verbatim>\<open>(1 / (w / h)) * 100\<close>;
  \<^item> \<open>string_toLowerCase s\<close> is \<^verbatim>\<open>s.toLowerCase()\<close>, the lower-casing of the
    runtime over all of Unicode.
\<close>

record 'w env =
  opts :: options
  path_sep :: char
  path_resolve :: "string list \<Rightarrow> string"
  path_join :: "string list \<Rightarrow> string"
  path_basename :: "string \<Rightarrow> string option \<Rightarrow> string"
  path_extname :: "string \<Rightarrow> string"
  path_dirname :: "string \<Rightarrow> string"
  path_relative :: "string \<Rightarrow> string \<Rightarrow> string"
  fs_existsSync :: "'w \<Rightarrow> string \<Rightarrow> bool"
  fs_readdirSync :: "'w \<Rightarrow> string \<Rightarrow> error + string list"
  fs_copy :: "'w \<Rightarrow> string \<Rightarrow> string \<Rightarrow> error + 'w"
  fs_mkdirSync :: "'w \<Rightarrow> string \<Rightarrow> error + 'w"
  fs_statSync_size :: "'w \<Rightarrow> string \<Rightarrow> error + nat"
  sharp_metadata :: "'w \<Rightarrow> string \<Rightarrow> error + metadata"
  sharp_webp_toFile :: "'w \<Rightarrow> string \<Rightarrow> nat \<Rightarrow> string \<Rightarrow> error + 'w"
  sharp_resize_toFile :: "'w \<Rightarrow> string \<Rightarrow> nat \<Rightarrow> string \<Rightarrow> error + output_info \<times> 'w"
  sharp_toFile :: "'w \<Rightarrow> string \<Rightarrow> string \<Rightarrow> error + 'w"
  sharp_resize_toBuffer :: "'w \<Rightarrow> string \<Rightarrow> nat option \<Rightarrow> error + string"
  buffer_base64 :: "string \<Rightarrow> string"
  potrace_trace :: "string \<Rightarrow> error + string"
  svgo_optimize :: "string \<Rightarrow> error + string"
  crypto_sha1_hex :: "string \<Rightarrow> string"
  axios_head_content_type :: "'w \<Rightarrow> string \<Rightarrow> error + string option"
  axios_download :: "'w \<Rightarrow> string \<Rightarrow> string \<Rightarrow> error + 'w"
  svelte_parse :: "string \<Rightarrow> error + node"
  source_regex_test :: "string \<Rightarrow> bool"
  ratio_text :: "nat \<Rightarrow> nat \<Rightarrow> string"
  string_toLowerCase :: "string \<Rightarrow> string"

section \<open>Paths of a source image\<close>

text \<open>The three paths \<^verbatim>\<open>getResizePaths(size)\<close> returns, and the paths object.\<close>

record resize_paths =
  outPath_r :: string
  outUrl_r :: string
  outPathWebp :: string

record paths =
  inPath :: string
  outDir :: string
  outPath :: string
  outUrl :: string
  getResizePaths :: "nat \<Rightarrow> resize_paths"

definition getBasename :: "'w env \<Rightarrow> string \<Rightarrow> string" where
  "getBasename env p = path_basename env p (Some (path_extname env p))"

definition getRelativePath :: "'w env \<Rightarrow> string \<Rightarrow> string" where
  "getRelativePath env p = path_relative env (sourceDir (opts env)) p"

definition getFilenameWithSize :: "'w env \<Rightarrow> string \<Rightarrow> nat \<Rightarrow> string" where
  "getFilenameWithSize env p size_v =
     getBasename env p @ ''-'' @ number_text size_v @ path_extname env p"

definition getWebpFilenameWithSize :: "'w env \<Rightarrow> string \<Rightarrow> nat \<Rightarrow> string" where
  "getWebpFilenameWithSize env p size_v =
     getBasename env p @ ''-'' @ number_text size_v @ ''.webp''"

definition getPathsObject :: "'w env \<Rightarrow> string \<Rightarrow> paths" where
  "getPathsObject env nodeSrc =
     (let in_path = nodeSrc;
          out_dir = path_resolve env [publicDir (opts env), outputDir (opts env)];
          file_name = path_basename env in_path None;
          out_url = path_join env [outputDir (opts env), file_name]
      in \<lparr> inPath = in_path,
           outDir = out_dir,
           outPath = path_join env [out_dir, file_name],
           outUrl = out_url,
           getResizePaths = (\<lambda>size_v.
             let filenameWithSize = getFilenameWithSize env in_path size_v
             in \<lparr> outPath_r = path_join env [out_dir, filenameWithSize],
                  outUrl_r = path_join env [path_dirname env out_url, filenameWithSize],
                  outPathWebp =
                    path_join env [out_dir, getWebpFilenameWithSize env in_path size_v] \<rparr>) \<rparr>)"

section \<open>Placeholders\<close>

text \<open>
  \<^verbatim>\<open>getBase64(pathname, inlined)\<close>: the size is 64, or the \<^verbatim>\<open>size\<close> of the metadata
  (which may be undefined) for an inlined image.
\<close>

definition getBase64 :: "'w env \<Rightarrow> 'w \<Rightarrow> string \<Rightarrow> bool \<Rightarrow> error + string" where
  "getBase64 env w pathname inlined =
     bind_res (if inlined
               then bind_res (sharp_metadata env w pathname) (\<lambda>m. Inr (byte_size m))
               else Inr (Some 64))
       (\<lambda>size_v. bind_res (sharp_resize_toBuffer env w pathname size_v)
          (\<lambda>s. Inr (''data:image/png;base64,'' @ buffer_base64 env s)))"

text \<open>
  \<^verbatim>\<open>getTrace(pathname)\<close>; \<^verbatim>\<open>options.trace.size || 500\<close> is 500 for an absent size
  and for 0.
\<close>

definition getTrace :: "'w env \<Rightarrow> 'w \<Rightarrow> string \<Rightarrow> error + string" where
  "getTrace env w pathname =
     bind_res (sharp_resize_toBuffer env w pathname
                 (Some (case trace_size (opts env) of
                          None \<Rightarrow> 500
                        | Some n \<Rightarrow> if n = 0 then 500 else n)))
       (\<lambda>s. bind_res (potrace_trace env s) (\<lambda>res. svgo_optimize env res))"

section \<open>Reading the \<^verbatim>\<open>src\<close> of a node\<close>

definition getProp :: "node \<Rightarrow> string \<Rightarrow> attr_value option" where
  "getProp n attr =
     (case find (\<lambda>a. aname a = attr) (case attributes n of None \<Rightarrow> [] | Some as \<Rightarrow> as) of
        None \<Rightarrow> None
      | Some prop \<Rightarrow> Some (avalue prop))"

text \<open>
  \<^verbatim>\<open>getProp(node, "src") || [{}]\<close>: the value \<^verbatim>\<open>true\<close> and every array, also the
  empty one, are truthy, so only an absent attribute gives \<^verbatim>\<open>[{}]\<close>. \<^verbatim>\<open>getProp\<close>
  does not throw on a node of the tree, so the \<^verbatim>\<open>catch\<close> branch (which returns
  \<^verbatim>\<open>[{}]\<close> as well) is never taken.
\<close>

definition getSrc :: "node \<Rightarrow> attr_value" where
  "getSrc n = (case getProp n ''src'' of None \<Rightarrow> AttrValues [Blank] | Some v \<Rightarrow> v)"

text \<open>
  The destructuring \<^verbatim>\<open>const [value] = getSrc(node)\<close> followed by a property access on
  \<^verbatim>\<open>value\<close>: \<^verbatim>\<open>true\<close> is not iterable, and the first element of an empty array is
  \<^verbatim>\<open>undefined\<close>, which has no properties.
\<close>

definition first_value :: "attr_value \<Rightarrow> error + value_desc" where
  "first_value av =
     (case av of
        AttrTrue \<Rightarrow> Inl (TypeError ''true is not iterable'')
      | AttrValues [] \<Rightarrow> Inl (TypeError ''Cannot read properties of undefined'')
      | AttrValues (v # vs) \<Rightarrow> Inr v)"

text \<open>\<^verbatim>\<open>IS_EXTERNAL = /^(https?:)?\/\//i\<close>.\<close>

definition IS_EXTERNAL_test :: "string \<Rightarrow> bool" where
  "IS_EXTERNAL_test s =
     (let l = ascii_lower s
      in startsWith l ''//'' \<or> startsWith l ''http://'' \<or> startsWith l ''https://'')"

text \<open>
  \<^verbatim>\<open>fileHasCorrectExtension(filename, extensions)\<close>; \<open>lower\<close> is the
  \<^verbatim>\<open>toLowerCase\<close> of the runtime, which the function calls on the extensions and on
  what \<^verbatim>\<open>filename.split(".").pop()\<close> returns.
\<close>

definition fileHasCorrectExtension ::
  "(string \<Rightarrow> string) \<Rightarrow> string \<Rightarrow> string list \<Rightarrow> bool" where
  "fileHasCorrectExtension lower file_name extensions =
     (if length extensions = 0 then True
      else lower (last (split_on CHR ''.'' file_name)) \<in> set (map lower extensions))"

section \<open>Resolving the image of a node\<close>

text \<open>
  The object \<^verbatim>\<open>{willNotProcess, reason, paths}\<close>: \<^verbatim>\<open>willNotProcess(reason)\<close> has
  the reason and no paths, \<^verbatim>\<open>willProcess(nodeSrc)\<close> has the paths and no reason.
\<close>

datatype decision = WillNotProcess string | WillProcess paths

definition willProcess :: "'w env \<Rightarrow> 'w \<Rightarrow> string \<Rightarrow> error + decision \<times> 'w" where
  "willProcess env w nodeSrc =
     bind_res (fs_copy env w
                 (path_resolve env [publicDir (opts env), outputDir (opts env),
                                    path_basename env nodeSrc None])
                 nodeSrc)
       (\<lambda>w'. Inr (WillProcess (getPathsObject env nodeSrc), w'))"

text \<open>
  \<^verbatim>\<open>downloadImage(url, folder)\<close> resolves to a file name in \<open>folder\<close>, or to
  \<^verbatim>\<open>null\<close> (\<open>None\<close>) when the content type is not an image. The test
  \<^verbatim>\<open>fs.existsSync(path)\<close> is given the \<^verbatim>\<open>path\<close> module, not \<^verbatim>\<open>saveTo\<close>, and
  \<^verbatim>\<open>existsSync\<close> answers \<^verbatim>\<open>false\<close> for what is not a path: that branch is never
  taken. A content type without \<^verbatim>\<open>/\<close> leaves \<^verbatim>\<open>ext\<close> undefined. An entry
  of the folder that starts with the hash is returned when it is truthy (not empty).
\<close>

definition downloadImage ::
  "'w env \<Rightarrow> 'w \<Rightarrow> string \<Rightarrow> string \<Rightarrow> error + string option \<times> 'w" where
  "downloadImage env w url folder =
     (let hash = crypto_sha1_hex env url
      in bind_res (fs_readdirSync env w folder)
           (\<lambda>entries.
              let existing = find (\<lambda>e. startsWith e hash) entries
              in if (case existing of None \<Rightarrow> False | Some e \<Rightarrow> e \<noteq> [])
                 then Inr (existing, w)
                 else
                   bind_res (axios_head_content_type env w url)
                     (\<lambda>header.
                        case header of
                          None \<Rightarrow> Inl (TypeError ''Cannot read properties of undefined'')
                        | Some content_type \<Rightarrow>
                            (let parts = split_on CHR ''/'' content_type;
                                 type_v = hd parts;
                                 ext = (case tl parts of [] \<Rightarrow> ''undefined'' | x # xs \<Rightarrow> x)
                             in if type_v \<noteq> ''image'' then Inr (None, w)
                                else (let file_name = hash @ ''.'' @ ext;
                                          saveTo = path_resolve env [folder, file_name]
                                      in bind_res (axios_download env w url saveTo)
                                           (\<lambda>w'. Inr (Some file_name, w')))))))"

text \<open>\<^verbatim>\<open>value.data.replace(/^\/([^\/])/, "$1")\<close>.\<close>

definition removeDomainSlash :: "string \<Rightarrow> string" where
  "removeDomainSlash d =
     (case d of
        c1 # c2 # cs \<Rightarrow> if c1 = CHR ''/'' \<and> c2 \<noteq> CHR ''/'' then c2 # cs else d
      | _ \<Rightarrow> d)"

text \<open>
  \<^verbatim>\<open>getProcessingPathsForNode(node, parentDir)\<close>. The \<^verbatim>\<open>.catch\<close> on the download
  turns its failure into \<^verbatim>\<open>null\<close>. The variable \<^verbatim>\<open>removedDomainSlash\<close> is assigned
  in both branches; the two candidate paths are resolved from \<^verbatim>\<open>value.data\<close>.
\<close>

definition getProcessingPathsForNode ::
  "'w env \<Rightarrow> 'w \<Rightarrow> node \<Rightarrow> string \<Rightarrow> error + decision \<times> 'w" where
  "getProcessingPathsForNode env w n parentDir =
     bind_res (first_value (getSrc n))
       (\<lambda>v.
          if vtype v = Some ''MustacheTag'' \<or> vtype v = Some ''AttributeShorthand''
          then Inr (WillNotProcess
                      (''Cannot process a dynamic value: '' @
                         (case vtype v of None \<Rightarrow> ''undefined'' | Some t \<Rightarrow> t)), w)
          else
            (case data v of
               None \<Rightarrow> Inr (WillNotProcess ''The `src` is blank'', w)
             | Some d \<Rightarrow>
                 if d = [] then Inr (WillNotProcess ''The `src` is blank'', w)
                 else if nname n = Some ''img'' \<and>
                         \<not> fileHasCorrectExtension (string_toLowerCase env) d
                             (imgTagExtensions (opts env))
                 then Inr (WillNotProcess
                             (''The <img> tag was passed a file ('' @ d @
                              '') whose extension is not one of '' @
                              join '', '' (imgTagExtensions (opts env))), w)
                 else if nname n = Some (tagName (opts env)) \<and>
                         \<not> fileHasCorrectExtension (string_toLowerCase env) d
                             (componentExtensions (opts env))
                 then Inr (WillNotProcess
                             (''The '' @ tagName (opts env) @
                              '' component was passed a file ('' @ d @
                              '') whose extension is not one of '' @
                              join '', '' (componentExtensions (opts env))), w)
                 else
                   (case (if IS_EXTERNAL_test d
                          then (if \<not> optimizeRemote (opts env)
                                then Inl (WillNotProcess (''The `src` is external: '' @ d), w)
                                else (case (case downloadImage env w d (sourceDir (opts env)) of
                                              Inl e \<Rightarrow> (None, w)
                                            | Inr r \<Rightarrow> r) of
                                        (None, w1) \<Rightarrow>
                                          Inl (WillNotProcess
                                                 (''The url of is not an image: '' @ d), w1)
                                      | (Some downloaded, w1) \<Rightarrow> Inr (downloaded, w1)))
                          else Inr (removeDomainSlash d, w)) of
                      Inl early \<Rightarrow> Inr early
                    | Inr (removedDomainSlash, w1) \<Rightarrow>
                        (let relativeToParent = path_resolve env [parentDir, d];
                             relativeToSource = path_resolve env [sourceDir (opts env), d]
                         in if fs_existsSync env w1 relativeToParent
                            then willProcess env w1 relativeToParent
                            else if fs_existsSync env w1 relativeToSource
                            then willProcess env w1 relativeToSource
                            else Inr (WillNotProcess
                                        (''The image file does not exist: '' @
                                         relativeToSource), w1)))))"

section \<open>Generating the variants\<close>

text \<open>
  \<^verbatim>\<open>mkdirp(dir)\<close>: for a string that does not exist yet, the call on the array of its
  parts, which is the \<^verbatim>\<open>reduce\<close> below. Its result (a path) is not used by the caller.
\<close>

fun mkdirp_parts :: "'w env \<Rightarrow> 'w \<Rightarrow> string \<Rightarrow> string list \<Rightarrow> error + 'w" where
  "mkdirp_parts env w created [] = Inr w"
| "mkdirp_parts env w created (nextPart # rest) =
     (let newDir = path_join env [created, nextPart]
      in if \<not> fs_existsSync env w newDir
         then bind_res (fs_mkdirSync env w newDir) (\<lambda>w'. mkdirp_parts env w' newDir rest)
         else mkdirp_parts env w newDir rest)"

definition mkdirp :: "'w env \<Rightarrow> 'w \<Rightarrow> string \<Rightarrow> error + 'w" where
  "mkdirp env w dir =
     (if fs_existsSync env w dir then Inr w
      else mkdirp_parts env w [] (split_on (path_sep env) dir))"

definition ensureOutDirExists :: "'w env \<Rightarrow> 'w \<Rightarrow> string \<Rightarrow> error + 'w" where
  "ensureOutDirExists env w out_dir =
     mkdirp env w (path_join env [sourceDir (opts env), getRelativePath env out_dir])"

text \<open>
  One entry of the variant set: \<^verbatim>\<open>{...meta, ...info, size, filename}\<close>, of which the
  program reads the width, the height, the size and the file name.
\<close>

record variant =
  v_width :: nat
  v_height :: nat
  size_px :: nat
  filename :: string

text \<open>
  \<^verbatim>\<open>resize(size, paths, meta)\<close> resolves to \<^verbatim>\<open>null\<close> (\<open>None\<close>) for a size above
  the width of the image.
\<close>

definition resize ::
  "'w env \<Rightarrow> 'w \<Rightarrow> nat \<Rightarrow> paths \<Rightarrow> metadata option \<Rightarrow> error + variant option \<times> 'w" where
  "resize env w size_v p meta_arg =
     bind_res (case meta_arg of
                 None \<Rightarrow> sharp_metadata env w (inPath p)
               | Some m \<Rightarrow> Inr m)
       (\<lambda>meta.
          let rp = getResizePaths p size_v
          in if width meta < size_v then Inr (None, w)
             else
               bind_res (ensureOutDirExists env w (outDir p))
                 (\<lambda>w1.
                    bind_res (if webp (opts env) \<and> \<not> fs_existsSync env w1 (outPathWebp rp)
                              then sharp_webp_toFile env w1 (inPath p) size_v (outPathWebp rp)
                              else Inr w1)
                      (\<lambda>w2.
                         if fs_existsSync env w2 (outPath_r rp)
                         then Inr (Some \<lparr> v_width = width meta, v_height = height meta,
                                          size_px = size_v, filename = outUrl_r rp \<rparr>, w2)
                         else
                           bind_res (sharp_resize_toFile env w2 (inPath p) size_v (outPath_r rp))
                             (\<lambda>(info, w3).
                                Inr (Some \<lparr> v_width = info_width info,
                                            v_height = info_height info,
                                            size_px = size_v,
                                            filename = outUrl_r rp \<rparr>, w3)))))"

text \<open>
  \<^verbatim>\<open>Promise.all(sizes.map((size) => resize(size, paths, meta)))\<close>: the results are in
  the order of the sizes, and the whole rejects when one call does. The calls are
  taken one after the other here.
\<close>

fun resize_all ::
  "'w env \<Rightarrow> 'w \<Rightarrow> nat list \<Rightarrow> paths \<Rightarrow> metadata \<Rightarrow> error + variant option list \<times> 'w" where
  "resize_all env w [] p meta = Inr ([], w)"
| "resize_all env w (size_v # rest) p meta =
     bind_res (resize env w size_v p (Some meta))
       (\<lambda>(r, w1). bind_res (resize_all env w1 rest p meta)
                     (\<lambda>(rs, w2). Inr (r # rs, w2)))"

text \<open>\<^verbatim>\<open>.filter(Boolean)\<close> and \<^verbatim>\<open>.filter((f) => f)\<close> on an array of objects and nulls.\<close>

fun filter_truthy :: "'a option list \<Rightarrow> 'a list" where
  "filter_truthy [] = []"
| "filter_truthy (None # xs) = filter_truthy xs"
| "filter_truthy (Some x # xs) = x # filter_truthy xs"

definition createSizes :: "'w env \<Rightarrow> 'w \<Rightarrow> paths \<Rightarrow> error + variant list \<times> 'w" where
  "createSizes env w p =
     (let smallestSize = Math_min (sizes (opts env))
      in bind_res (sharp_metadata env w (inPath p))
           (\<lambda>meta.
              let sizes_v = (if smallestSize > enat (width meta) then [width meta]
                             else sizes (opts env))
              in bind_res (resize_all env w sizes_v p meta)
                   (\<lambda>(rs, w'). Inr (filter_truthy rs, w'))))"

section \<open>Formatting\<close>

text \<open>
  \<^verbatim>\<open>options.breakpoints[i]\<close> in a template literal: the number, or the text
  \<^verbatim>\<open>undefined\<close> beyond the end of the array.
\<close>

definition breakpoint_text :: "nat list \<Rightarrow> nat \<Rightarrow> string" where
  "breakpoint_text bps i = (if i < length bps then number_text (bps ! i) else ''undefined'')"

text \<open>\<^verbatim>\<open>s.filename.replace(pathSepPattern, "/")\<close>: every separator becomes a slash.\<close>

definition slashes :: "'w env \<Rightarrow> string \<Rightarrow> string" where
  "slashes env f = map (\<lambda>c. if c = path_sep env then CHR ''/'' else c) f"

definition srcsetLine :: "'w env \<Rightarrow> variant \<Rightarrow> nat \<Rightarrow> string" where
  "srcsetLine env s i =
     slashes env (filename s) @ '' '' @ breakpoint_text (breakpoints (opts env)) i @ ''w''"

definition srcsetLineWebp :: "'w env \<Rightarrow> variant \<Rightarrow> nat \<Rightarrow> string" where
  "srcsetLineWebp env s i =
     replace_first
       (replace_first
          (replace_first
             (slashes env (filename s) @ '' '' @
                breakpoint_text (breakpoints (opts env)) i @ ''w'')
             ''jpg'' ''webp'')
          ''png'' ''webp'')
       ''jpeg'' ''webp''"

text \<open>
  \<^verbatim>\<open>getSrcset(sizes, lineFn, tag)\<close>; both callers pass an array. The text is
  \<^verbatim>\<open> tag='value' \<close>, with a space on either side.
\<close>

definition getSrcset ::
  "'w env \<Rightarrow> variant option list \<Rightarrow> ('w env \<Rightarrow> variant \<Rightarrow> nat \<Rightarrow> string) \<Rightarrow> string \<Rightarrow> string" where
  "getSrcset env sizes_v lineFn tag =
     (let srcSetValue = join '','' (map_index (lineFn env) 0 (filter_truthy sizes_v))
      in '' '' @ tag @ ''='' @ [CHR 0x27] @ srcSetValue @ [CHR 0x27] @ '' '')"

section \<open>Rewriting the nodes\<close>

text \<open>
  \<^verbatim>\<open>optimize(paths)\<close>: a file below \<^verbatim>\<open>inlineBelow\<close> bytes is inlined (a threshold of
  0 is falsy and switches inlining off), any other is written to \<^verbatim>\<open>outPath\<close>.
\<close>

definition optimize :: "'w env \<Rightarrow> 'w \<Rightarrow> paths \<Rightarrow> error + string \<times> 'w" where
  "optimize env w p =
     bind_res (fs_statSync_size env w (inPath p))
       (\<lambda>size_v.
          if inlineBelow (opts env) \<noteq> 0 \<and> size_v < inlineBelow (opts env)
          then bind_res (getBase64 env w (inPath p) True) (\<lambda>s. Inr (s, w))
          else
            bind_res (ensureOutDirExists env w (outDir p))
              (\<lambda>w1. bind_res (sharp_toFile env w1 (inPath p) (outPath p))
                       (\<lambda>w2. Inr (outUrl p, w2))))"

text \<open>
  \<^verbatim>\<open>replaceInImg(edited, node, parentDir)\<close>. Only the call of \<^verbatim>\<open>optimize\<close> and the
  \<^verbatim>\<open>insert\<close> stand in the \<^verbatim>\<open>try\<close>; an error caught there gives back the pair as it
  was; the world is then taken as it was before the call. The second
  \<^verbatim>\<open>getSrc(node)\<close> returns what the first did, and a node that is processed has a
  \<open>Text\<close> there (lemma \<open>process_needs_text\<close> below), which has a position: the branch
  for a descriptor without one is never reached.
\<close>

definition replaceInImg ::
  "'w env \<Rightarrow> 'w \<Rightarrow> edited \<Rightarrow> node \<Rightarrow> string \<Rightarrow> error + edited \<times> 'w" where
  "replaceInImg env w ed n parentDir =
     bind_res (getProcessingPathsForNode env w n parentDir)
       (\<lambda>(dec, w1).
          case dec of
            WillNotProcess reason \<Rightarrow> Inr (ed, w1)
          | WillProcess p \<Rightarrow>
              bind_res (first_value (getSrc n))
                (\<lambda>v. case span v of
                        None \<Rightarrow> Inl (TypeError ''no position'')
                      | Some (start, end_pos) \<Rightarrow>
                          (case optimize env w1 p of
                             Inl e \<Rightarrow> Inr (ed, w1)
                           | Inr (outUri, w2) \<Rightarrow>
                               Inr (insert_edit (content ed) outUri start end_pos (offset ed),
                                    w2))))"

text \<open>
  \<^verbatim>\<open>replaceInComponent(edited, node, parentDir)\<close>. No statement of it stands in a
  \<^verbatim>\<open>try\<close>. \<^verbatim>\<open>sizes[0].width\<close> throws for an empty array.
\<close>

definition replaceInComponent ::
  "'w env \<Rightarrow> 'w \<Rightarrow> edited \<Rightarrow> node \<Rightarrow> string \<Rightarrow> error + edited \<times> 'w" where
  "replaceInComponent env w ed n parentDir =
     bind_res (getProcessingPathsForNode env w n parentDir)
       (\<lambda>(dec, w1).
          case dec of
            WillNotProcess reason \<Rightarrow> Inr (ed, w1)
          | WillProcess p \<Rightarrow>
              bind_res (createSizes env w1 p)
                (\<lambda>(sizes_v, w2).
                   bind_res (if placeholder (opts env) = ''blur''
                             then getBase64 env w2 (inPath p) False
                             else getTrace env w2 (inPath p))
                     (\<lambda>base64.
                        bind_res (first_value (getSrc n))
                          (\<lambda>v. case span v of
                                  None \<Rightarrow> Inl (TypeError ''no position'')
                                | Some (start, end_pos) \<Rightarrow>
                                    (let withBase64 =
                                           insert_edit (content ed) base64 start end_pos
                                             (offset ed);
                                         withSrcset =
                                           insert_edit (content withBase64)
                                             (getSrcset env (map Some sizes_v) srcsetLine
                                                ''srcset'')
                                             (end_pos + 1) (end_pos + 2) (offset withBase64)
                                     in case sizes_v of
                                          [] \<Rightarrow> Inl (TypeError
                                                       ''Cannot read properties of undefined'')
                                        | s0 # ss \<Rightarrow>
                                            (let withRatio =
                                                   insert_edit (content withSrcset)
                                                     ('' ratio='' @ [CHR 0x27] @
                                                      ratio_text env (v_width s0) (v_height s0) @
                                                      ''%'' @ [CHR 0x27] @ '' '')
                                                     (end_pos + 1) (end_pos + 2)
                                                     (offset withSrcset)
                                             in if \<not> webp (opts env) then Inr (withRatio, w2)
                                                else Inr (insert_edit (content withRatio)
                                                            (getSrcset env (map Some sizes_v)
                                                               srcsetLineWebp ''srcsetWebp'')
                                                            (end_pos + 1) (end_pos + 2)
                                                            (offset withRatio), w2)))))))"

section \<open>The rewrite of a document\<close>

text \<open>
  \<^verbatim>\<open>svelte.walk(ast, {enter})\<close> calls \<^verbatim>\<open>enter\<close> on every node of the tree, parents
  before children, and on nothing when \<^verbatim>\<open>ast\<close> is undefined (the walker visits a
  node only if it is truthy). \<^verbatim>\<open>enter\<close> pushes the image nodes.
\<close>

fun walk_nodes :: "node \<Rightarrow> node list" where
  "walk_nodes (Node t nm as cs) = Node t nm as cs # concat (map walk_nodes cs)"

definition is_image_node :: "'w env \<Rightarrow> node \<Rightarrow> bool" where
  "is_image_node env n =
     (ntype n \<in> set [''Element'', ''Fragment'', ''InlineComponent''] \<and>
      ((optimizeAll (opts env) \<and> nname n = Some ''img'') \<or>
       nname n = Some (tagName (opts env))))"

definition collect_imageNodes :: "'w env \<Rightarrow> node option \<Rightarrow> node list" where
  "collect_imageNodes env ast =
     (case ast of None \<Rightarrow> [] | Some tree \<Rightarrow> filter (is_image_node env) (walk_nodes tree))"

text \<open>
  The \<^verbatim>\<open>reduce\<close> over the image nodes: every step awaits the pair of the step before
  it, so the nodes are processed in order, and a step that rejects makes every later
  one, and the whole, reject.
\<close>

fun process_nodes ::
  "'w env \<Rightarrow> 'w \<Rightarrow> edited \<Rightarrow> node list \<Rightarrow> string \<Rightarrow> error + edited \<times> 'w" where
  "process_nodes env w ed [] parentDir = Inr (ed, w)"
| "process_nodes env w ed (n # ns) parentDir =
     bind_res (if nname n = Some ''img'' then replaceInImg env w ed n parentDir
               else replaceInComponent env w ed n parentDir)
       (\<lambda>(ed', w'). process_nodes env w' ed' ns parentDir)"

text \<open>
  \<^verbatim>\<open>replaceImages(content, parentDir)\<close>. A parse error is caught and logged, and
  \<^verbatim>\<open>ast\<close> stays undefined.
\<close>

definition replaceImages :: "'w env \<Rightarrow> 'w \<Rightarrow> string \<Rightarrow> string \<Rightarrow> error + string \<times> 'w" where
  "replaceImages env w text parentDir =
     (if \<not> source_regex_test env parentDir then Inr (text, w)
      else if \<not> includes_str text ''<img'' \<and> \<not> includes_str text ''<Image''
      then Inr (text, w)
      else
        (let ast = (case svelte_parse env text of Inl e \<Rightarrow> None | Inr tree \<Rightarrow> Some tree);
             imageNodes = collect_imageNodes env ast
         in if length imageNodes = 0 then Inr (text, w)
            else
              bind_res (process_nodes env w \<lparr> content = text, offset = 0 \<rparr> imageNodes parentDir)
                (\<lambda>(processed, w'). Inr (content processed, w'))))"

text \<open>
  The \<^verbatim>\<open>markup\<close> function of \<^verbatim>\<open>getPreprocessor\<close>, the entry point; its result is the
  \<^verbatim>\<open>code\<close> of the object it returns.
\<close>

definition markup :: "'w env \<Rightarrow> 'w \<Rightarrow> string \<Rightarrow> string option \<Rightarrow> error + string \<times> 'w" where
  "markup env w text file_name =
     replaceImages env w text
       (path_dirname env (case file_name of None \<Rightarrow> [] | Some f \<Rightarrow> f))"

section \<open>The final segment of a file name\<close>

text \<open>
  The final dot-separated segment of a file name, in the words of the specification: the
  text after the last dot, and the whole name when it has no dot.
\<close>

definition final_segment :: "string \<Rightarrow> string" where
  "final_segment f = rev (takeWhile (\<lambda>c. c \<noteq> CHR ''.'') (rev f))"

section \<open>A small world for concrete runs\<close>

text \<open>
  The defaults of the module (\<^verbatim>\<open>module.exports.defaults\<close>), and the same with directory
  names that need no normalisation.
\<close>

definition defaults :: options where
  "defaults =
     \<lparr> optimizeAll = True,
       imgTagExtensions = [''jpg'', ''jpeg'', ''png''],
       componentExtensions = [],
       inlineBelow = 10000,
       tagName = ''Image'',
       sizes = [400, 800, 1200],
       breakpoints = [375, 768, 1024],
       outputDir = ''g/'',
       publicDir = ''./static/'',
       sourceDir = ''./src/'',
       placeholder = ''trace'',
       trace_size = None,
       webp = True,
       optimizeRemote = True \<rparr>"

definition plain_dirs :: "options \<Rightarrow> options" where
  "plain_dirs opt = opt \<lparr> outputDir := ''g'', publicDir := ''static'', sourceDir := ''src'' \<rparr>"

text \<open>
  The world is the list of the paths that exist. The non-empty parts of a path are joined
  with a slash and not normalised; an image is \<open>natural_width\<close> pixels wide and half as high, and a file
  whose name holds \<^verbatim>\<open>corrupt\<close> makes every call of the image library fail. Every
  request is answered with a PNG image. The parser knows three documents. The names of
  the test world are ASCII, on which lower-casing the letters \<open>A\<close> to \<open>Z\<close> is the
  lower-casing of the runtime.
\<close>

definition test_basename :: "string \<Rightarrow> string option \<Rightarrow> string" where
  "test_basename p ext =
     (let b = last (split_on CHR ''/'' p)
      in case ext of
           None \<Rightarrow> b
         | Some e \<Rightarrow>
             if e \<noteq> [] \<and> length e < length b \<and> drop (length b - length e) b = e
             then take (length b - length e) b else b)"

definition test_extname :: "string \<Rightarrow> string" where
  "test_extname p =
     (let segs = split_on CHR ''.'' (last (split_on CHR ''/'' p))
      in if length segs < 2 then [] else CHR ''.'' # last segs)"

definition test_parse :: "string \<Rightarrow> error + node" where
  "test_parse text =
     (if text = ''<Image src=corrupt.jpg />''
      then Inr (Node ''Fragment'' None None
                  [Node ''InlineComponent'' (Some ''Image'')
                     (Some [Attribute ''src'' (AttrValues [Text ''corrupt.jpg'' 11 22])]) []])
      else if text = ''<img src=corrupt.jpg>''
      then Inr (Node ''Fragment'' None None
                  [Node ''Element'' (Some ''img'')
                     (Some [Attribute ''src'' (AttrValues [Text ''corrupt.jpg'' 9 20])]) []])
      else if text = ''<img alt=x>''
      then Inr (Node ''Fragment'' None None
                  [Node ''Element'' (Some ''img'')
                     (Some [Attribute ''alt'' (AttrValues [Text ''x'' 9 10])]) []])
      else Inl (Failure ''ParseError''))"

definition test_env :: "options \<Rightarrow> nat \<Rightarrow> (string list) env" where
  "test_env opt natural_width =
     \<lparr> opts = opt,
       path_sep = CHR ''/'',
       path_resolve = (\<lambda>parts. join ''/'' (filter (\<lambda>part. part \<noteq> []) parts)),
       path_join = (\<lambda>parts. join ''/'' (filter (\<lambda>part. part \<noteq> []) parts)),
       path_basename = test_basename,
       path_extname = test_extname,
       path_dirname = (\<lambda>p. join ''/'' (butlast (split_on CHR ''/'' p))),
       path_relative = (\<lambda>from_dir to_path. to_path),
       fs_existsSync = (\<lambda>w p. p \<in> set w),
       fs_readdirSync = (\<lambda>w folder. Inr []),
       fs_copy = (\<lambda>w dst src. Inr (dst # w)),
       fs_mkdirSync = (\<lambda>w dir. Inr (dir # w)),
       fs_statSync_size = (\<lambda>w p. Inr 20000),
       sharp_metadata = (\<lambda>w p.
         if includes_str p ''corrupt'' then Inl (Failure ''unsupported image format'')
         else Inr \<lparr> width = natural_width, height = natural_width div 2, byte_size = None \<rparr>),
       sharp_webp_toFile = (\<lambda>w src size_v dst.
         if includes_str src ''corrupt'' then Inl (Failure ''unsupported image format'')
         else Inr (dst # w)),
       sharp_resize_toFile = (\<lambda>w src size_v dst.
         if includes_str src ''corrupt'' then Inl (Failure ''unsupported image format'')
         else Inr (\<lparr> info_width = size_v,
                      info_height = (natural_width div 2) * size_v div natural_width \<rparr>,
                   dst # w)),
       sharp_toFile = (\<lambda>w src dst.
         if includes_str src ''corrupt'' then Inl (Failure ''unsupported image format'')
         else Inr (dst # w)),
       sharp_resize_toBuffer = (\<lambda>w src size_v.
         if includes_str src ''corrupt'' then Inl (Failure ''unsupported image format'')
         else Inr ''pixels''),
       buffer_base64 = (\<lambda>b. ''cGl4ZWxz''),
       potrace_trace = (\<lambda>b. Inr ''<svg/>''),
       svgo_optimize = (\<lambda>svg. Inr svg),
       crypto_sha1_hex = (\<lambda>url. ''5f2b'' @ number_text (length url)),
       axios_head_content_type = (\<lambda>w url. Inr (Some ''image/png'')),
       axios_download = (\<lambda>w url dst. Inr (dst # w)),
       svelte_parse = test_parse,
       source_regex_test = (\<lambda>dir. includes_str dir ''src''),
       ratio_text = (\<lambda>w h. number_text (h * 100 div w)),
       string_toLowerCase = ascii_lower \<rparr>"

section \<open>Properties of the text patcher\<close>

lemma substr_prefix: "substr c 0 (Some n) = take (nat n) c"
  by (auto simp: substr_def Let_def min_def max_def)

lemma substr_suffix: "0 \<le> k \<Longrightarrow> substr c k None = drop (nat k) c"
  by (auto simp: substr_def Let_def min_def max_def)

lemma insert_edit_content:
  assumes "0 \<le> start + off" "start \<le> end_pos"
  shows "content (insert_edit c v start end_pos off) =
           take (nat (start + off)) c @ v @ drop (nat (end_pos + off)) c"
proof -
  from assms have "0 \<le> end_pos + off" by arith
  then show ?thesis
    by (simp add: insert_edit_def substr_prefix substr_suffix)
qed

lemma insert_edit_offset:
  "offset (insert_edit c v start end_pos off) = off + int (length v) - (end_pos - start)"
  by (simp add: insert_edit_def)

lemma insert_edit_length:
  assumes "0 \<le> start + off" "start \<le> end_pos" "end_pos + off \<le> int (length c)"
  shows "int (length (content (insert_edit c v start end_pos off))) =
           int (length c) + int (length v) - (end_pos - start)"
proof -
  have "content (insert_edit c v start end_pos off) =
          take (nat (start + off)) c @ v @ drop (nat (end_pos + off)) c"
    using assms(1,2) by (rule insert_edit_content)
  moreover have "nat (start + off) \<le> length c"
    using assms by arith
  ultimately show ?thesis
    using assms by (simp add: min_def)
qed

text \<open>
  The invariant of the fold: the current text is as long as the original plus the
  offset, and the previous edit ended at a position that is in the current text.
\<close>

lemma foldl_apply_edit_length:
  assumes "edits_ok pos n es" "0 \<le> pos + offset ed" "int (length (content ed)) = n + offset ed"
  shows "int (length (content (foldl apply_edit ed es))) =
           n + offset ed + (\<Sum>e\<leftarrow>es. edit_delta e)"
  using assms
proof (induction es arbitrary: pos ed)
  case Nil
  then show ?case by simp
next
  case (Cons e es)
  obtain s t v where e: "e = (s, t, v)" by (cases e) auto
  let ?ed = "apply_edit ed (s, t, v)"
  from Cons.prems e have ok: "pos \<le> s" "s \<le> t" "t \<le> n" "edits_ok t n es" by auto
  have off: "offset ?ed = offset ed + int (length v) - (t - s)"
    by (simp add: apply_edit_def insert_edit_offset)
  have s0: "0 \<le> s + offset ed" using ok Cons.prems(2) by arith
  have tn: "t + offset ed \<le> int (length (content ed))" using ok Cons.prems(3) by arith
  have len: "int (length (content ?ed)) = n + offset ?ed"
    using insert_edit_length [OF s0 ok(2) tn, of v] Cons.prems(3) off
    by (simp add: apply_edit_def)
  have pos': "0 \<le> t + offset ?ed" using off s0 by arith
  have "int (length (content (foldl apply_edit ?ed es))) =
          n + offset ?ed + (\<Sum>e\<leftarrow>es. edit_delta e)"
    by (rule Cons.IH [OF ok(4) pos' len])
  then show ?case
    unfolding e by (simp add: off edit_delta_def)
qed

lemma foldl_apply_edit_inv:
  assumes "edits_ok pos n (es @ [(s, t, v)])" "0 \<le> pos + offset ed"
    "int (length (content ed)) = n + offset ed"
  shows "0 \<le> s + offset (foldl apply_edit ed es) \<and>
         int (length (content (foldl apply_edit ed es))) = n + offset (foldl apply_edit ed es)"
  using assms
proof (induction es arbitrary: pos ed)
  case Nil
  then show ?case by simp
next
  case (Cons e es)
  obtain s1 t1 v1 where e: "e = (s1, t1, v1)" by (cases e) auto
  let ?ed = "apply_edit ed (s1, t1, v1)"
  from Cons.prems e have ok: "pos \<le> s1" "s1 \<le> t1" "t1 \<le> n"
    "edits_ok t1 n (es @ [(s, t, v)])" by auto
  have off: "offset ?ed = offset ed + int (length v1) - (t1 - s1)"
    by (simp add: apply_edit_def insert_edit_offset)
  have s0: "0 \<le> s1 + offset ed" using ok Cons.prems(2) by arith
  have tn: "t1 + offset ed \<le> int (length (content ed))" using ok Cons.prems(3) by arith
  have len: "int (length (content ?ed)) = n + offset ?ed"
    using insert_edit_length [OF s0 ok(2) tn, of v1] Cons.prems(3) off
    by (simp add: apply_edit_def)
  have pos': "0 \<le> t1 + offset ?ed" using off s0 by arith
  from Cons.IH [OF ok(4) pos' len] show ?case
    unfolding e by simp
qed

lemma edits_ok_last:
  "edits_ok pos n (es @ [(s, t, v)]) \<Longrightarrow> s \<le> t \<and> t \<le> n"
  by (induction es arbitrary: pos) auto

text \<open>
  C1. One call of \<^verbatim>\<open>insert\<close> whose range \<open>[start + offset, end + offset)\<close> lies in
  the current text returns the current text with exactly that range replaced by the
  value: the text before \<open>start + offset\<close> and the text from \<open>end + offset\<close> on are
  the input's. The new offset is \<open>offset + len(value) - (end - start)\<close>. The offset
  accumulated by edits that are sorted ascending by start, do not overlap and lie in the
  original text puts the range of the next such edit in the current text. Hence such
  edits, applied from offset 0, give a text of length
  \<open>originalLength + \<Sum> (len(replacement) - (end - start))\<close>.
\<close>

theorem insert_edit_patches:
  "(0 \<le> start + off \<and> start \<le> end_pos \<and> end_pos + off \<le> int (length c) \<longrightarrow>
      content (insert_edit c v start end_pos off) =
        take (nat (start + off)) c @ v @ drop (nat (end_pos + off)) c
      \<and> take (nat (start + off)) (content (insert_edit c v start end_pos off)) =
          take (nat (start + off)) c
      \<and> drop (nat (start + off) + length v) (content (insert_edit c v start end_pos off)) =
          drop (nat (end_pos + off)) c)
   \<and> offset (insert_edit c v start end_pos off) = off + int (length v) - (end_pos - start)
   \<and> (edits_ok 0 (int (length original)) (es @ [(s, t, x)]) \<longrightarrow>
        0 \<le> s + offset (applyEdits original es) \<and> s \<le> t \<and>
        t + offset (applyEdits original es) \<le> int (length (content (applyEdits original es))))
   \<and> (edits_ok 0 (int (length original)) es \<longrightarrow>
        int (length (content (applyEdits original es))) =
          int (length original) + (\<Sum>e\<leftarrow>es. edit_delta e))"
proof (intro conjI impI)
  assume h: "0 \<le> start + off \<and> start \<le> end_pos \<and> end_pos + off \<le> int (length c)"
  then have le: "nat (start + off) \<le> length c" by arith
  show eq: "content (insert_edit c v start end_pos off) =
              take (nat (start + off)) c @ v @ drop (nat (end_pos + off)) c"
    using h by (simp add: insert_edit_content)
  show "take (nat (start + off)) (content (insert_edit c v start end_pos off)) =
          take (nat (start + off)) c"
    using le by (simp add: eq min_def)
  show "drop (nat (start + off) + length v) (content (insert_edit c v start end_pos off)) =
          drop (nat (end_pos + off)) c"
    using le by (simp add: eq min_def)
next
  show "offset (insert_edit c v start end_pos off) = off + int (length v) - (end_pos - start)"
    by (rule insert_edit_offset)
next
  assume ok: "edits_ok 0 (int (length original)) (es @ [(s, t, x)])"
  have inv: "0 \<le> s + offset (applyEdits original es) \<and>
             int (length (content (applyEdits original es))) =
               int (length original) + offset (applyEdits original es)"
    using foldl_apply_edit_inv [OF ok, of "\<lparr> content = original, offset = 0 \<rparr>"]
    by (simp add: applyEdits_def)
  have last: "s \<le> t \<and> t \<le> int (length original)"
    by (rule edits_ok_last [OF ok])
  show "0 \<le> s + offset (applyEdits original es)" using inv by simp
  show "s \<le> t" using last by simp
  show "t + offset (applyEdits original es) \<le> int (length (content (applyEdits original es)))"
    using inv last by simp
next
  assume ok: "edits_ok 0 (int (length original)) es"
  show "int (length (content (applyEdits original es))) =
          int (length original) + (\<Sum>e\<leftarrow>es. edit_delta e)"
    using foldl_apply_edit_length [OF ok, of "\<lparr> content = original, offset = 0 \<rparr>"]
    by (simp add: applyEdits_def)
qed

theorem insert_edit_patches_witness:
  "content (insert_edit ''<img src=a.png>'' ''g/a.png'' 9 14 0) = ''<img src=g/a.png>''
   \<and> offset (insert_edit ''<img src=a.png>'' ''g/a.png'' 9 14 0) = 2
   \<and> 0 \<le> 15 + offset (applyEdits ''<img src=a.png>'' [(1, 4, ''IMAGE''), (9, 14, ''b'')])
   \<and> int (length (content (applyEdits ''<img src=a.png>'' [(1, 4, ''IMAGE''), (9, 14, ''b'')]))) = 13"
  using insert_edit_patches [of 9 0 14 "''<img src=a.png>''" "''g/a.png''"
      "''<img src=a.png>''" "[(1, 4, ''IMAGE''), (9, 14, ''b'')]" 15 15 "[]"]
  by (simp add: edit_delta_def)

section \<open>Properties of the extension check\<close>

lemma split_on_nonempty: "split_on sep s \<noteq> []"
  by (induction s) (auto split: list.splits)

lemma split_on_no_sep: "sep \<notin> set s \<Longrightarrow> split_on sep s = [s]"
  by (induction s) auto

lemma takeWhile_no_sep: "sep \<notin> set s \<Longrightarrow> takeWhile (\<lambda>c. c \<noteq> sep) (rev s) = rev s"
  by (auto simp: takeWhile_eq_all_conv)

lemma split_on_append: "split_on sep (p @ sep # s) = split_on sep p @ split_on sep s"
  by (induction p) (auto split: list.splits simp: split_on_nonempty)

lemma last_split_on_sep:
  assumes "sep \<notin> set seg"
  shows "last (split_on sep (p @ sep # seg)) = seg"
  using assms by (simp add: split_on_append split_on_no_sep)

text \<open>What \<^verbatim>\<open>.split(sep).pop()\<close> returns is the text after the last separator.\<close>

lemma last_split_on: "last (split_on sep s) = rev (takeWhile (\<lambda>c. c \<noteq> sep) (rev s))"
proof (cases "sep \<in> set s")
  case False
  then show ?thesis by (simp add: split_on_no_sep takeWhile_no_sep)
next
  case True
  then obtain p seg where s: "s = p @ sep # seg" and seg: "sep \<notin> set seg"
    by (meson split_list_last)
  have "takeWhile (\<lambda>c. c \<noteq> sep) (rev seg @ sep # rev p) = rev seg"
    using seg by (auto simp: takeWhile_tail)
  then show ?thesis
    using seg by (simp add: s last_split_on_sep)
qed

text \<open>
  C9. With an empty allow-list \<^verbatim>\<open>fileHasCorrectExtension\<close> accepts every file name. With
  a non-empty one it accepts exactly when the final dot-separated segment of the name,
  lower-cased by the runtime, is the lower-cased form of a member of the list. For a name
  \<open>p.seg\<close> whose \<open>seg\<close> holds no dot the answer is that for \<open>seg\<close>, whatever
  \<open>p\<close> is: two names with the same final segment get the same answer. This holds
  whatever the lower-casing function \<open>lower\<close> of the runtime is.
\<close>

theorem fileHasCorrectExtension_final_segment:
  "fileHasCorrectExtension lower f exts =
     (exts = [] \<or> lower (final_segment f) \<in> set (map lower exts))
   \<and> (CHR ''.'' \<notin> set seg \<longrightarrow>
        fileHasCorrectExtension lower (p @ ''.'' @ seg) exts =
          (exts = [] \<or> (\<exists>e \<in> set exts. lower e = lower seg)))
   \<and> (final_segment f = final_segment g \<longrightarrow>
        fileHasCorrectExtension lower f exts = fileHasCorrectExtension lower g exts)"
proof -
  have main: "fileHasCorrectExtension lower f exts =
     (exts = [] \<or> lower (final_segment f) \<in> set (map lower exts))" for f
    by (simp add: fileHasCorrectExtension_def final_segment_def last_split_on)
  have "final_segment (p @ ''.'' @ seg) = seg" if "CHR ''.'' \<notin> set seg"
    using that by (simp add: final_segment_def takeWhile_tail takeWhile_no_sep)
  then show ?thesis
    by (auto simp: main image_iff) metis
qed

theorem fileHasCorrectExtension_final_segment_witness:
  "fileHasCorrectExtension ascii_lower ''my.photo.JPG'' []
   \<and> fileHasCorrectExtension ascii_lower ''my.photo.JPG'' [''jpg'', ''png'']
   \<and> \<not> fileHasCorrectExtension ascii_lower ''jpg.gif'' [''jpg'', ''png'']
   \<and> fileHasCorrectExtension ascii_lower ''a.b.Png'' [''jpg'', ''PNG'']
   \<and> fileHasCorrectExtension id ''a.b.png'' [''jpg'', ''png'']
   \<and> \<not> fileHasCorrectExtension id ''a.b.Png'' [''jpg'', ''png'']"
  using fileHasCorrectExtension_final_segment
      [of ascii_lower "''my.photo.JPG''" "[]" "''JPG''" "''my.photo''" "''x.JPG''"]
    fileHasCorrectExtension_final_segment
      [of ascii_lower "''my.photo.JPG''" "[''jpg'', ''png'']" "''JPG''" "''my.photo''"
        "''x.JPG''"]
    fileHasCorrectExtension_final_segment
      [of ascii_lower "''jpg.gif''" "[''jpg'', ''png'']" "''gif''" "''jpg''" "''y.gif''"]
    fileHasCorrectExtension_final_segment
      [of ascii_lower "''a.b.Png''" "[''jpg'', ''PNG'']" "''Png''" "''a.b''" "''Png''"]
    fileHasCorrectExtension_final_segment
      [of id "''a.b.png''" "[''jpg'', ''png'']" "''png''" "''a.b''" "''png''"]
    fileHasCorrectExtension_final_segment
      [of id "''a.b.Png''" "[''jpg'', ''png'']" "''Png''" "''a.b''" "''Png''"]
  by (simp add: final_segment_def ascii_lower_def lower_char_def)

section \<open>Properties of the variant generator\<close>

lemma bind_res_simps [simp]:
  "bind_res (Inl e) f = Inl e"
  "bind_res (Inr x) f = f x"
  by (simp_all add: bind_res_def)

lemma bind_res_Inr:
  "bind_res r f = Inr y \<longleftrightarrow> (\<exists>x. r = Inr x \<and> f x = Inr y)"
  by (cases r) simp_all

text \<open>\<^verbatim>\<open>Math.min\<close> of the sizes is above a width exactly when every size is.\<close>

lemma Math_min_greater: "(enat n < Math_min ss) = (\<forall>s \<in> set ss. n < s)"
  by (induction ss) auto

text \<open>A call of \<^verbatim>\<open>resize\<close> that returns: no entry above the width, the entry of the
  size and of its URL otherwise.\<close>

lemma resize_Inr:
  assumes "resize env w s p (Some meta) = Inr (r, w')"
  shows "(width meta < s \<and> r = None) \<or>
         (s \<le> width meta \<and>
          (\<exists>v. r = Some v \<and> size_px v = s \<and> filename v = outUrl_r (getResizePaths p s)))"
  using assms
  by (auto simp: resize_def Let_def bind_res_Inr split: if_splits)

lemma resize_Inr_width:
  assumes "resize env w s p (Some meta) = Inr (Some v, w')"
  shows "(v_width v = width meta \<and> v_height v = height meta) \<or>
         (\<exists>w2 info. sharp_resize_toFile env w2 (inPath p) s (outPath_r (getResizePaths p s)) =
                       Inr (info, w') \<and>
                     v_width v = info_width info \<and> v_height v = info_height info)"
  using assms
  by (auto simp: resize_def Let_def bind_res_Inr split: if_splits) blast+

lemma resize_above_width:
  "width meta < s \<Longrightarrow> resize env w s p (Some meta) = Inr (None, w)"
  by (simp add: resize_def Let_def)

lemma resize_all_Inr:
  assumes "resize_all env w ss p meta = Inr (rs, w')"
  shows "map size_px (filter_truthy rs) = filter (\<lambda>s. s \<le> width meta) ss
       \<and> map filename (filter_truthy rs) =
           map (\<lambda>s. outUrl_r (getResizePaths p s)) (filter (\<lambda>s. s \<le> width meta) ss)"
  using assms
proof (induction ss arbitrary: w rs)
  case Nil
  then show ?case by simp
next
  case (Cons s ss)
  from Cons.prems obtain r w1 rs' where
    r: "resize env w s p (Some meta) = Inr (r, w1)" and
    rest: "resize_all env w1 ss p meta = Inr (rs', w')" and
    rs: "rs = r # rs'"
    by (auto simp: bind_res_Inr)
  note ih = Cons.IH [OF rest]
  from resize_Inr [OF r] show ?case
    using ih by (auto simp: rs)
qed

lemma createSizes_Inr:
  assumes "createSizes env w p = Inr (vs, w')" "sharp_metadata env w (inPath p) = Inr meta"
  shows "map size_px vs =
           filter (\<lambda>s. s \<le> width meta)
             (if Math_min (sizes (opts env)) > enat (width meta) then [width meta]
              else sizes (opts env))
       \<and> map filename vs =
           map (\<lambda>s. outUrl_r (getResizePaths p s))
             (filter (\<lambda>s. s \<le> width meta)
                (if Math_min (sizes (opts env)) > enat (width meta) then [width meta]
                 else sizes (opts env)))"
proof -
  let ?cand = "if Math_min (sizes (opts env)) > enat (width meta) then [width meta]
               else sizes (opts env)"
  from assms obtain rs where
    "resize_all env w ?cand p meta = Inr (rs, w')" "vs = filter_truthy rs"
    by (auto simp: createSizes_def Let_def bind_res_Inr)
  then show ?thesis
    using resize_all_Inr [of env w ?cand p meta rs w'] by simp
qed

text \<open>Runs of the test world, used below.\<close>

lemmas test_defs = test_env_def plain_dirs_def defaults_def test_basename_def test_extname_def
  test_parse_def

lemmas path_defs = getPathsObject_def getFilenameWithSize_def getWebpFilenameWithSize_def
  getBasename_def getRelativePath_def

lemmas resize_defs = createSizes_def resize_def ensureOutDirExists_def mkdirp_def

lemma test_createSizes_1000:
  "createSizes (test_env (plain_dirs defaults) 1000) [''src/fuji.jpg'']
     (getPathsObject (test_env (plain_dirs defaults) 1000) ''src/fuji.jpg'') =
   Inr ([\<lparr> v_width = 400, v_height = 200, size_px = 400, filename = ''g/fuji-400.jpg'' \<rparr>,
         \<lparr> v_width = 800, v_height = 400, size_px = 800, filename = ''g/fuji-800.jpg'' \<rparr>],
        [''static/g/fuji-800.jpg'', ''static/g/fuji-800.webp'',
         ''static/g/fuji-400.jpg'', ''static/g/fuji-400.webp'',
         ''src/static/g'', ''src/static'', ''src'', ''src/fuji.jpg''])"
  by (simp add: test_defs path_defs resize_defs Let_def digit_char_def)

lemma test_createSizes_300:
  "createSizes (test_env (plain_dirs defaults) 300) [''src/fuji.jpg'']
     (getPathsObject (test_env (plain_dirs defaults) 300) ''src/fuji.jpg'') =
   Inr ([\<lparr> v_width = 300, v_height = 150, size_px = 300, filename = ''g/fuji-300.jpg'' \<rparr>],
        [''static/g/fuji-300.jpg'', ''static/g/fuji-300.webp'',
         ''src/static/g'', ''src/static'', ''src'', ''src/fuji.jpg''])"
  by (simp add: test_defs path_defs resize_defs Let_def digit_char_def)

lemma test_metadata:
  "sharp_metadata (test_env (plain_dirs defaults) n) [''src/fuji.jpg'']
     (inPath (getPathsObject (test_env (plain_dirs defaults) n) ''src/fuji.jpg'')) =
   Inr \<lparr> width = n, height = n div 2, byte_size = None \<rparr>"
  by (simp add: test_defs path_defs Let_def)

text \<open>
  C6. When \<^verbatim>\<open>createSizes\<close> returns, every entry of the variant set has a size that is
  at most the natural width of the source image, so no configured size above the natural
  width is the size of an entry. \<^verbatim>\<open>resize\<close> returns \<^verbatim>\<open>null\<close> for such a size. When
  the least configured size is not above the natural width, the sizes of the entries are
  the configured sizes without those above the natural width, in the configured order:
  the sizes above it are dropped and nothing stands in their place.
\<close>

theorem createSizes_no_upscale:
  assumes "createSizes env w p = Inr (vs, w')" "sharp_metadata env w (inPath p) = Inr meta"
  shows "(\<forall>v \<in> set vs. size_px v \<le> width meta)
       \<and> (\<forall>s \<in> set (sizes (opts env)).
            width meta < s \<longrightarrow>
              s \<notin> size_px ` set vs \<and> resize env w0 s p (Some meta) = Inr (None, w0))
       \<and> (\<not> Math_min (sizes (opts env)) > enat (width meta) \<longrightarrow>
            map size_px vs = filter (\<lambda>s. s \<le> width meta) (sizes (opts env)))"
proof -
  note c = createSizes_Inr [OF assms]
  have 1: "\<forall>s \<in> set (map size_px vs). s \<le> width meta"
    using c by (auto split: if_splits)
  then have 2: "\<forall>v \<in> set vs. size_px v \<le> width meta" by simp
  have 3: "\<forall>s \<in> set (sizes (opts env)).
            width meta < s \<longrightarrow>
              s \<notin> size_px ` set vs \<and> resize env w0 s p (Some meta) = Inr (None, w0)"
    using 2 by (auto simp: resize_above_width)
  show ?thesis using 2 3 c by simp
qed

theorem createSizes_no_upscale_witness:
  "createSizes (test_env (plain_dirs defaults) 1000) [''src/fuji.jpg'']
     (getPathsObject (test_env (plain_dirs defaults) 1000) ''src/fuji.jpg'') =
   Inr ([\<lparr> v_width = 400, v_height = 200, size_px = 400, filename = ''g/fuji-400.jpg'' \<rparr>,
         \<lparr> v_width = 800, v_height = 400, size_px = 800, filename = ''g/fuji-800.jpg'' \<rparr>],
        [''static/g/fuji-800.jpg'', ''static/g/fuji-800.webp'',
         ''static/g/fuji-400.jpg'', ''static/g/fuji-400.webp'',
         ''src/static/g'', ''src/static'', ''src'', ''src/fuji.jpg''])
   \<and> resize (test_env (plain_dirs defaults) 1000) []  1200
       (getPathsObject (test_env (plain_dirs defaults) 1000) ''src/fuji.jpg'')
       (Some \<lparr> width = 1000, height = 1000 div 2, byte_size = None \<rparr>) = Inr (None, [])
   \<and> filter (\<lambda>s. s \<le> (1000::nat)) [400, 800, 1200] = [400, 800]"
  using createSizes_no_upscale [OF test_createSizes_1000 test_metadata, of "[]"]
    test_createSizes_1000
  by (simp add: test_defs)

text \<open>
  C7. When the natural width of the source image is below every configured size (so below
  the least of them), \<^verbatim>\<open>createSizes\<close> takes the natural width as the only size. It
  fails only if the one call of \<^verbatim>\<open>resize\<close> at the natural width fails (a call into the
  file system or the image library threw), and otherwise returns exactly one variant,
  the one of that call, whose size is the natural width. The width and height recorded
  in it are those of the metadata when the output file was already there, and those the
  image library reports for the file it wrote at that width otherwise.
\<close>

theorem createSizes_fallback:
  assumes small: "\<forall>s \<in> set (sizes (opts env)). width meta < s"
    and "sharp_metadata env w (inPath p) = Inr meta"
  shows "case createSizes env w p of
           Inl e \<Rightarrow> resize env w (width meta) p (Some meta) = Inl e
         | Inr (vs, w') \<Rightarrow>
             (\<exists>v. vs = [v] \<and> size_px v = width meta \<and>
                  filename v = outUrl_r (getResizePaths p (width meta)) \<and>
                  resize env w (width meta) p (Some meta) = Inr (Some v, w') \<and>
                  ((v_width v = width meta \<and> v_height v = height meta) \<or>
                   (\<exists>w2 info.
                      sharp_resize_toFile env w2 (inPath p) (width meta)
                        (outPath_r (getResizePaths p (width meta))) = Inr (info, w') \<and>
                      v_width v = info_width info \<and> v_height v = info_height info)))"
proof (cases "resize env w (width meta) p (Some meta)")
  case (Inl e)
  then show ?thesis using assms by (simp add: createSizes_def Let_def Math_min_greater)
next
  case (Inr rw)
  obtain r w1 where rw: "rw = (r, w1)" by (cases rw)
  from resize_Inr [OF Inr [unfolded rw]] obtain v where
    v: "r = Some v" "size_px v = width meta"
    "filename v = outUrl_r (getResizePaths p (width meta))" by auto
  have "resize env w (width meta) p (Some meta) = Inr (Some v, w1)"
    using Inr rw v(1) by simp
  note resize_Inr_width [OF this]
  then show ?thesis
    using v assms Inr rw by (simp add: createSizes_def Let_def Math_min_greater)
qed

theorem createSizes_fallback_witness:
  "createSizes (test_env (plain_dirs defaults) 300) [''src/fuji.jpg'']
     (getPathsObject (test_env (plain_dirs defaults) 300) ''src/fuji.jpg'') =
   Inr ([\<lparr> v_width = 300, v_height = 150, size_px = 300, filename = ''g/fuji-300.jpg'' \<rparr>],
        [''static/g/fuji-300.jpg'', ''static/g/fuji-300.webp'',
         ''src/static/g'', ''src/static'', ''src'', ''src/fuji.jpg''])
   \<and> resize (test_env (plain_dirs defaults) 300) [''src/fuji.jpg''] 300
       (getPathsObject (test_env (plain_dirs defaults) 300) ''src/fuji.jpg'')
       (Some \<lparr> width = 300, height = 150, byte_size = None \<rparr>) =
     Inr (Some \<lparr> v_width = 300, v_height = 150, size_px = 300, filename = ''g/fuji-300.jpg'' \<rparr>,
          [''static/g/fuji-300.jpg'', ''static/g/fuji-300.webp'',
           ''src/static/g'', ''src/static'', ''src'', ''src/fuji.jpg''])"
proof -
  have small: "\<forall>s \<in> set (sizes (opts (test_env (plain_dirs defaults) 300))).
                 width \<lparr> width = 300, height = 300 div 2, byte_size = None \<rparr> < s"
    by (simp add: test_defs)
  show ?thesis
    using createSizes_fallback [OF small test_metadata] test_createSizes_300
    by simp
qed

section \<open>Properties of the formatter\<close>

lemma map_index_nth: "map_index f i xs = map (\<lambda>k. f (xs ! k) (i + k)) [0..<length xs]"
proof (induction xs arbitrary: i)
  case Nil
  then show ?case by simp
next
  case (Cons x xs)
  have "[0..<length (x # xs)] = 0 # map Suc [0..<length xs]"
    by (simp add: upt_conv_Cons map_Suc_upt del: upt_Suc)
  then show ?case
    by (simp add: Cons.IH comp_def del: upt_Suc)
qed

lemma filter_truthy_map_Some: "filter_truthy (map Some vs) = vs"
  by (induction vs) auto

text \<open>
  C8. The text \<^verbatim>\<open>getSrcset\<close> returns for a variant set is \<^verbatim>\<open> tag='value' \<close>, where
  the value is the comma-joined list of one entry per variant, in the order of the
  variant set: entry \<open>i\<close> is the URL of variant \<open>i\<close> (its file name with slashes for
  separators), a space, breakpoint \<open>i\<close> of the configured list and \<^verbatim>\<open>w\<close>. With the
  sizes 400, 800, 1200, the breakpoints 375, 768, 1024 and a natural width of 1000, the
  variant set has the sizes 400 and 800 and the value is
  \<^verbatim>\<open><url-400> 375w,<url-800> 768w\<close>.
\<close>

theorem getSrcset_pairs_by_index:
  "getSrcset env (map Some vs) srcsetLine tag =
     '' '' @ tag @ ''='' @ [CHR 0x27] @
     join '','' (map (\<lambda>i. slashes env (filename (vs ! i)) @ '' '' @
                            breakpoint_text (breakpoints (opts env)) i @ ''w'')
                   [0..<length vs]) @
     [CHR 0x27] @ '' ''
   \<and> (i < length (breakpoints (opts env)) \<longrightarrow>
        breakpoint_text (breakpoints (opts env)) i = number_text (breakpoints (opts env) ! i))
   \<and> (sizes (opts env) = [400, 800, 1200] \<and> breakpoints (opts env) = [375, 768, 1024] \<and>
       sharp_metadata env w (inPath p) = Inr meta \<and> width meta = 1000 \<and>
       createSizes env w p = Inr (vs, w') \<longrightarrow>
         map size_px vs = [400, 800] \<and>
         getSrcset env (map Some vs) srcsetLine ''srcset'' =
           '' srcset='' @ [CHR 0x27] @
           slashes env (outUrl_r (getResizePaths p 400)) @ '' 375w,'' @
           slashes env (outUrl_r (getResizePaths p 800)) @ '' 768w'' @
           [CHR 0x27] @ '' '')"
proof (intro conjI impI)
  show "getSrcset env (map Some vs) srcsetLine tag =
     '' '' @ tag @ ''='' @ [CHR 0x27] @
     join '','' (map (\<lambda>i. slashes env (filename (vs ! i)) @ '' '' @
                            breakpoint_text (breakpoints (opts env)) i @ ''w'')
                   [0..<length vs]) @
     [CHR 0x27] @ '' ''"
    by (simp add: getSrcset_def filter_truthy_map_Some map_index_nth srcsetLine_def)
next
  assume "i < length (breakpoints (opts env))"
  then show "breakpoint_text (breakpoints (opts env)) i =
               number_text (breakpoints (opts env) ! i)"
    by (simp add: breakpoint_text_def)
next
  assume h: "sizes (opts env) = [400, 800, 1200] \<and> breakpoints (opts env) = [375, 768, 1024] \<and>
       sharp_metadata env w (inPath p) = Inr meta \<and> width meta = 1000 \<and>
       createSizes env w p = Inr (vs, w')"
  then have c: "createSizes env w p = Inr (vs, w')" "sharp_metadata env w (inPath p) = Inr meta"
    by simp_all
  from createSizes_Inr [OF c] h
  have sz: "map size_px vs = [400, 800]"
    and fn: "map filename vs = [outUrl_r (getResizePaths p 400), outUrl_r (getResizePaths p 800)]"
    by simp_all
  show "map size_px vs = [400, 800]" by (rule sz)
  from fn obtain v1 v2 where vs: "vs = [v1, v2]"
    and f1: "filename v1 = outUrl_r (getResizePaths p 400)"
    and f2: "filename v2 = outUrl_r (getResizePaths p 800)"
    by auto
  have n1: "number_text 375 = ''375''" and n2: "number_text 768 = ''768''"
    by (simp_all add: digit_char_def)
  show "getSrcset env (map Some vs) srcsetLine ''srcset'' =
           '' srcset='' @ [CHR 0x27] @
           slashes env (outUrl_r (getResizePaths p 400)) @ '' 375w,'' @
           slashes env (outUrl_r (getResizePaths p 800)) @ '' 768w'' @
           [CHR 0x27] @ '' ''"
    using h by (simp add: getSrcset_def vs f1 f2 srcsetLine_def breakpoint_text_def n1 n2
        del: number_text.simps)
qed

theorem getSrcset_pairs_by_index_witness:
  "getSrcset (test_env (plain_dirs defaults) 1000)
     (map Some
        [\<lparr> v_width = 400, v_height = 200, size_px = 400, filename = ''g/fuji-400.jpg'' \<rparr>,
         \<lparr> v_width = 800, v_height = 400, size_px = 800, filename = ''g/fuji-800.jpg'' \<rparr>])
     srcsetLine ''srcset''
   = '' srcset='' @ [CHR 0x27] @ ''g/fuji-400.jpg 375w,g/fuji-800.jpg 768w'' @ [CHR 0x27] @ '' ''
   \<and> breakpoint_text (breakpoints (opts (test_env (plain_dirs defaults) 1000))) 1 = ''768''"
proof -
  have h: "sizes (opts (test_env (plain_dirs defaults) 1000)) = [400, 800, 1200] \<and>
           breakpoints (opts (test_env (plain_dirs defaults) 1000)) = [375, 768, 1024] \<and>
           (1::nat) < length (breakpoints (opts (test_env (plain_dirs defaults) 1000)))"
    by (simp add: test_defs)
  have g: "slashes (test_env (plain_dirs defaults) 1000)
             (outUrl_r (getResizePaths
                (getPathsObject (test_env (plain_dirs defaults) 1000) ''src/fuji.jpg'') 400)) =
           ''g/fuji-400.jpg''
         \<and> slashes (test_env (plain_dirs defaults) 1000)
             (outUrl_r (getResizePaths
                (getPathsObject (test_env (plain_dirs defaults) 1000) ''src/fuji.jpg'') 800)) =
           ''g/fuji-800.jpg''"
    by (simp add: slashes_def test_defs path_defs Let_def digit_char_def)
  have n: "number_text 768 = ''768''"
    by (simp add: digit_char_def)
  show ?thesis
    using getSrcset_pairs_by_index
      [of "test_env (plain_dirs defaults) 1000"
        "[\<lparr> v_width = 400, v_height = 200, size_px = 400, filename = ''g/fuji-400.jpg'' \<rparr>,
          \<lparr> v_width = 800, v_height = 400, size_px = 800, filename = ''g/fuji-800.jpg'' \<rparr>]"
        "''srcset''" 1 "[''src/fuji.jpg'']"
        "getPathsObject (test_env (plain_dirs defaults) 1000) ''src/fuji.jpg''"
        "\<lparr> width = 1000, height = 1000 div 2, byte_size = None \<rparr>"
        "[''static/g/fuji-800.jpg'', ''static/g/fuji-800.webp'',
          ''static/g/fuji-400.jpg'', ''static/g/fuji-400.webp'',
          ''src/static/g'', ''src/static'', ''src'', ''src/fuji.jpg'']"]
      h g n test_createSizes_1000 test_metadata [of 1000]
    by (simp add: slashes_def breakpoint_text_def test_defs digit_char_def)
qed

section \<open>Properties of the rewrite\<close>

text \<open>
  C2. When the parser throws on a text, \<^verbatim>\<open>replaceImages\<close> (and with it the
  \<^verbatim>\<open>markup\<close> entry point) returns: its result is the text it was given, whole and
  unchanged, and the world is as it was. No error reaches the caller.
\<close>

theorem replaceImages_parse_failure:
  assumes "svelte_parse env text = Inl e"
  shows "replaceImages env w text parentDir = Inr (text, w)
       \<and> markup env w text file_name = Inr (text, w)"
  using assms by (simp add: replaceImages_def markup_def collect_imageNodes_def)

theorem replaceImages_parse_failure_witness:
  "svelte_parse (test_env (plain_dirs defaults) 1000) ''<img src=a.png'' =
     Inl (Failure ''ParseError'')
   \<and> replaceImages (test_env (plain_dirs defaults) 1000) [''src/a.png''] ''<img src=a.png''
       ''src'' = Inr (''<img src=a.png'', [''src/a.png''])
   \<and> markup (test_env (plain_dirs defaults) 1000) [''src/a.png''] ''<img src=a.png''
       (Some ''src/App.svelte'') = Inr (''<img src=a.png'', [''src/a.png''])"
proof -
  have p: "svelte_parse (test_env (plain_dirs defaults) 1000) ''<img src=a.png'' =
             Inl (Failure ''ParseError'')"
    by (simp add: test_defs)
  show ?thesis
    using replaceImages_parse_failure [OF p] p by simp
qed

text \<open>
  A node that is processed has a \<open>Text\<close> with data as the first value of its
  \<^verbatim>\<open>src\<close>, so the position that \<^verbatim>\<open>replaceInImg\<close> and \<^verbatim>\<open>replaceInComponent\<close> read
  from it is there.
\<close>

lemma process_needs_text:
  assumes "getProcessingPathsForNode env w n parentDir = Inr (WillProcess p, w')"
  shows "\<exists>d s e vs. getSrc n = AttrValues (Text d s e # vs) \<and> d \<noteq> []"
proof -
  from assms obtain v where v: "first_value (getSrc n) = Inr v"
    by (auto simp: getProcessingPathsForNode_def bind_res_Inr)
  then obtain vs where g: "getSrc n = AttrValues (v # vs)"
    by (auto simp: first_value_def split: attr_value.splits list.splits)
  from assms v obtain d where "data v = Some d" "d \<noteq> []"
    by (cases "data v") (auto simp: getProcessingPathsForNode_def split: if_splits)
  then show ?thesis using g by (cases v) auto
qed

lemma no_src_blank:
  assumes "\<forall>a \<in> set (case attributes n of None \<Rightarrow> [] | Some as \<Rightarrow> as). aname a \<noteq> ''src''"
  shows "getSrc n = AttrValues [Blank]"
    and "getProcessingPathsForNode env w n parentDir =
           Inr (WillNotProcess ''The `src` is blank'', w)"
    and "replaceInImg env w ed n parentDir = Inr (ed, w)"
    and "replaceInComponent env w ed n parentDir = Inr (ed, w)"
proof -
  have "find (\<lambda>a. aname a = ''src'') (case attributes n of None \<Rightarrow> [] | Some as \<Rightarrow> as) = None"
    using assms by (cases "attributes n") (auto simp: find_None_iff)
  then show g: "getSrc n = AttrValues [Blank]"
    by (simp add: getSrc_def getProp_def)
  show p: "getProcessingPathsForNode env w n parentDir =
             Inr (WillNotProcess ''The `src` is blank'', w)"
    by (simp add: getProcessingPathsForNode_def g first_value_def)
  show "replaceInImg env w ed n parentDir = Inr (ed, w)"
    by (simp add: replaceInImg_def p)
  show "replaceInComponent env w ed n parentDir = Inr (ed, w)"
    by (simp add: replaceInComponent_def p)
qed

lemma process_nodes_no_src:
  assumes "\<forall>n \<in> set ns.
             \<forall>a \<in> set (case attributes n of None \<Rightarrow> [] | Some as \<Rightarrow> as). aname a \<noteq> ''src''"
  shows "process_nodes env w ed ns parentDir = Inr (ed, w)"
  using assms by (induction ns) (simp_all add: no_src_blank)

text \<open>
  C10. For a node that has no \<^verbatim>\<open>src\<close> attribute (its attribute list is absent, or no
  attribute of it is named \<^verbatim>\<open>src\<close>), \<^verbatim>\<open>getSrc\<close> returns the one-element list of the
  empty descriptor, \<^verbatim>\<open>getProcessingPathsForNode\<close> returns the decision not to process
  with the reason \<^verbatim>\<open>The `src` is blank\<close> and throws nothing, and both
  \<^verbatim>\<open>replaceInImg\<close> and \<^verbatim>\<open>replaceInComponent\<close> return the text and the offset they were
  given; so does the pass over any list of such nodes.
\<close>

theorem missing_src_is_blank_skip:
  assumes "\<forall>a \<in> set (case attributes n of None \<Rightarrow> [] | Some as \<Rightarrow> as). aname a \<noteq> ''src''"
  shows "getSrc n = AttrValues [Blank]
       \<and> getProcessingPathsForNode env w n parentDir =
           Inr (WillNotProcess ''The `src` is blank'', w)
       \<and> replaceInImg env w ed n parentDir = Inr (ed, w)
       \<and> replaceInComponent env w ed n parentDir = Inr (ed, w)
       \<and> process_nodes env w ed [n, n] parentDir = Inr (ed, w)"
proof -
  have "\<forall>m \<in> set [n, n].
          \<forall>a \<in> set (case attributes m of None \<Rightarrow> [] | Some as \<Rightarrow> as). aname a \<noteq> ''src''"
    using assms by simp
  then have "process_nodes env w ed [n, n] parentDir = Inr (ed, w)"
    by (rule process_nodes_no_src)
  moreover have "getSrc n = AttrValues [Blank]"
    by (rule no_src_blank(1) [OF assms])
  moreover have "getProcessingPathsForNode env w n parentDir =
                   Inr (WillNotProcess ''The `src` is blank'', w)"
    by (rule no_src_blank(2) [OF assms])
  moreover have "replaceInImg env w ed n parentDir = Inr (ed, w)"
    by (rule no_src_blank(3) [OF assms])
  moreover have "replaceInComponent env w ed n parentDir = Inr (ed, w)"
    by (rule no_src_blank(4) [OF assms])
  ultimately show ?thesis by blast
qed

theorem missing_src_is_blank_skip_witness:
  "getSrc (Node ''Element'' (Some ''img'') None []) = AttrValues [Blank]
   \<and> getProcessingPathsForNode (test_env (plain_dirs defaults) 1000) []
       (Node ''Element'' (Some ''img'') None []) ''src'' =
       Inr (WillNotProcess ''The `src` is blank'', [])
   \<and> getSrc (Node ''InlineComponent'' (Some ''Image'')
               (Some [Attribute ''alt'' (AttrValues [Text ''x'' 11 12])]) []) =
       AttrValues [Blank]
   \<and> replaceInComponent (test_env (plain_dirs defaults) 1000) []
       \<lparr> content = ''<Image alt=x />'', offset = 0 \<rparr>
       (Node ''InlineComponent'' (Some ''Image'')
          (Some [Attribute ''alt'' (AttrValues [Text ''x'' 11 12])]) []) ''src'' =
       Inr (\<lparr> content = ''<Image alt=x />'', offset = 0 \<rparr>, [])
   \<and> replaceImages (test_env (plain_dirs defaults) 1000) [] ''<img alt=x>'' ''src'' =
       Inr (''<img alt=x>'', [])"
proof -
  have a: "\<forall>a \<in> set (case attributes (Node ''Element'' (Some ''img'') None []) of
                        None \<Rightarrow> [] | Some as \<Rightarrow> as). aname a \<noteq> ''src''"
    by simp
  have b: "\<forall>a \<in> set (case attributes (Node ''InlineComponent'' (Some ''Image'')
                          (Some [Attribute ''alt'' (AttrValues [Text ''x'' 11 12])]) []) of
                        None \<Rightarrow> [] | Some as \<Rightarrow> as). aname a \<noteq> ''src''"
    by simp
  have c: "\<forall>a \<in> set (case attributes (Node ''Element'' (Some ''img'')
                          (Some [Attribute ''alt'' (AttrValues [Text ''x'' 9 10])]) []) of
                        None \<Rightarrow> [] | Some as \<Rightarrow> as). aname a \<noteq> ''src''"
    by simp
  have r: "replaceImages (test_env (plain_dirs defaults) 1000) [] ''<img alt=x>'' ''src'' =
             Inr (''<img alt=x>'', [])"
    using missing_src_is_blank_skip [OF c, of "test_env (plain_dirs defaults) 1000" "[]" "''src''"
        "\<lparr> content = ''<img alt=x>'', offset = 0 \<rparr>"]
    by (simp add: replaceImages_def collect_imageNodes_def is_image_node_def test_defs)
  show ?thesis
    using missing_src_is_blank_skip [OF a, of "test_env (plain_dirs defaults) 1000" "[]" "''src''"]
      missing_src_is_blank_skip [OF b, of "test_env (plain_dirs defaults) 1000" "[]" "''src''"
        "\<lparr> content = ''<Image alt=x />'', offset = 0 \<rparr>"]
      r
    by simp
qed

text \<open>
  What the two functions do with an error of the variant generator and of
  \<^verbatim>\<open>optimize\<close>, in every world.
\<close>

lemma replaceInComponent_propagates:
  assumes "getProcessingPathsForNode env w n parentDir = Inr (WillProcess p, w1)"
    and "createSizes env w1 p = Inl e"
  shows "replaceInComponent env w ed n parentDir = Inl e"
  using assms by (simp add: replaceInComponent_def)

lemma process_nodes_propagates:
  assumes "nname n \<noteq> Some ''img''"
    and "getProcessingPathsForNode env w n parentDir = Inr (WillProcess p, w1)"
    and "createSizes env w1 p = Inl e"
  shows "process_nodes env w ed (n # ns) parentDir = Inl e"
  using assms by (simp add: replaceInComponent_def)

lemma replaceInImg_catches:
  assumes "getProcessingPathsForNode env w n parentDir = Inr (WillProcess p, w1)"
    and "optimize env w1 p = Inl e"
  shows "replaceInImg env w ed n parentDir = Inr (ed, w1)"
proof -
  from process_needs_text [OF assms(1)] obtain d s t vs where
    "getSrc n = AttrValues (Text d s t # vs)" by blast
  then show ?thesis
    using assms by (simp add: replaceInImg_def first_value_def)
qed

text \<open>
  The file name a successful download returns plays no role in the decision: the files
  looked for are those of the URL.
\<close>

lemma download_result_unused:
  assumes "first_value (getSrc n) = Inr (Text d s t)" "d \<noteq> []"
    and "nname n = Some ''img'' \<Longrightarrow>
           fileHasCorrectExtension (string_toLowerCase env) d (imgTagExtensions (opts env))"
    and "nname n = Some (tagName (opts env)) \<Longrightarrow>
           fileHasCorrectExtension (string_toLowerCase env) d
             (componentExtensions (opts env))"
    and "IS_EXTERNAL_test d" "optimizeRemote (opts env)"
    and "downloadImage env w d (sourceDir (opts env)) = Inr (Some local_file, w1)"
    and "\<not> fs_existsSync env w1 (path_resolve env [parentDir, d])"
    and "\<not> fs_existsSync env w1 (path_resolve env [sourceDir (opts env), d])"
  shows "getProcessingPathsForNode env w n parentDir =
           Inr (WillNotProcess (''The image file does not exist: '' @
                                path_resolve env [sourceDir (opts env), d]), w1)"
  using assms by (auto simp: getProcessingPathsForNode_def Let_def)

text \<open>
  C4, at a failing input. The file of an image component is there, and the image library
  rejects it: the error of \<^verbatim>\<open>createSizes\<close> leaves \<^verbatim>\<open>replaceInComponent\<close>, which has no
  \<^verbatim>\<open>try\<close>, and is the result of \<^verbatim>\<open>replaceImages\<close>. The same file in a plain
  \<^verbatim>\<open>img\<close> element is caught by \<^verbatim>\<open>replaceInImg\<close>, and the text comes back unchanged.
\<close>

theorem replaceInComponent_error_escapes:
  "replaceImages (test_env (plain_dirs defaults) 1000) [''src/corrupt.jpg'']
     ''<Image src=corrupt.jpg />'' ''src''
   = Inl (Failure ''unsupported image format'')
   \<and> replaceImages (test_env (plain_dirs defaults) 1000) [''src/corrupt.jpg'']
     ''<img src=corrupt.jpg>'' ''src''
   = Inr (''<img src=corrupt.jpg>'', [''static/g/corrupt.jpg'', ''src/corrupt.jpg''])"
  by (simp add: replaceImages_def collect_imageNodes_def is_image_node_def
      replaceInComponent_def replaceInImg_def getProcessingPathsForNode_def getSrc_def
      getProp_def first_value_def fileHasCorrectExtension_def IS_EXTERNAL_test_def
      ascii_lower_def lower_char_def willProcess_def optimize_def
      test_defs path_defs resize_defs Let_def digit_char_def)

text \<open>
  C5, at a failing input. The download of a remote PNG image succeeds and returns the name
  of the local file; \<^verbatim>\<open>getProcessingPathsForNode\<close> then looks for the URL itself under
  the parent and the source directory, and reports that the image file does not exist.
\<close>

theorem downloaded_image_not_found:
  "downloadImage (test_env (plain_dirs defaults) 1000) [] ''https://example.com/a.png'' ''src''
   = Inr (Some ''5f2b25.png'', [''src/5f2b25.png''])
   \<and> getProcessingPathsForNode (test_env (plain_dirs defaults) 1000) []
       (Node ''Element'' (Some ''img'')
          (Some [Attribute ''src'' (AttrValues [Text ''https://example.com/a.png'' 9 34])]) [])
       ''src''
   = Inr (WillNotProcess ''The image file does not exist: src/https://example.com/a.png'',
          [''src/5f2b25.png''])"
  by (simp add: downloadImage_def getProcessingPathsForNode_def getSrc_def
      getProp_def first_value_def fileHasCorrectExtension_def IS_EXTERNAL_test_def
      ascii_lower_def lower_char_def willProcess_def
      test_defs path_defs Let_def digit_char_def)

text \<open>
  C3, at a failing input. For the variant \<^verbatim>\<open>g/jpg-photo-400.png\<close> the line of the WebP
  srcset names \<^verbatim>\<open>g/webp-photo-400.webp\<close>: the \<^verbatim>\<open>jpg\<close> of the base name was
  rewritten. The WebP file that \<^verbatim>\<open>resize\<close> writes for it is
  \<^verbatim>\<open>jpg-photo-400.webp\<close>.
\<close>

theorem srcsetLineWebp_rewrites_base_name:
  "srcsetLineWebp (test_env (plain_dirs defaults) 1000)
     \<lparr> v_width = 400, v_height = 200, size_px = 400, filename = ''g/jpg-photo-400.png'' \<rparr> 0
   = ''g/webp-photo-400.webp 375w''
   \<and> getWebpFilenameWithSize (test_env (plain_dirs defaults) 1000) ''src/jpg-photo.png'' 400
   = ''jpg-photo-400.webp''"
  by (simp add: srcsetLineWebp_def slashes_def breakpoint_text_def test_defs path_defs
      digit_char_def)

end
